theory Spec2Isabelle
  imports Main "HOL-Library.Char_ord" "HOL-Library.List_Lexorder" "HOL-Library.Multiset"
begin

section \<open>Record model\<close>

text \<open>
  The records of \<^verbatim>\<open>Data/characterBaseData.json\<close> as
  \<^verbatim>\<open>Tools/VisualEditor/editor.js\<close> reads and writes them. An optional
  property is an \<open>option\<close>: \<open>None\<close> is the absent property (\<^verbatim>\<open>undefined\<close>),
  \<open>Some []\<close> an array that is present and empty. Tiers and enhancements are the
  integers of the schema.
\<close>

record ignore_flags =
  gear :: "bool option"
  rarity :: "bool option"

record category_def =
  include_cd :: "string list option"
  exclude_cd :: "string list option"
  numberMatchesRequired :: "int option"

record synergy_set =
  synergyEnhancement :: "int option"
  synergyEnhancementOmicron :: "int option"
  characters :: "string list option"
  skipIfPresentCharacters :: "string list option"
  categoryDefinitions :: "category_def list option"

text \<open>
  The properties a committed character and a draft of it share; a character adds its
  \<^verbatim>\<open>id\<close>, a draft the \<^verbatim>\<open>characterId\<close> it was opened for.
\<close>

record char_fields =
  baseTier :: int
  omicronBoost :: "int option"
  ignoreRequirements :: "ignore_flags option"
  ignoreSynergyRequirements :: "ignore_flags option"
  requiredZetas :: "string list option"
  requiresAllZetas :: "bool option"
  requiredOmicrons :: "string list option"
  requiresAllOmicrons :: "bool option"
  categories :: "string list option"
  synergySets :: "synergy_set list option"

record character = char_fields +
  id_c :: string

record draft = char_fields +
  characterId :: string

text \<open>What \<^verbatim>\<open>alert(...)\<close> shows in \<^verbatim>\<open>updateCharacter\<close>, one constructor per message.\<close>

datatype alert_message =
  BaseTierRange
  | OmicronBoostRange
  | SynergyEnhancementRange nat
  | SynergyOmicronBoostRange nat
  | SynergySlotUsage nat int int int
  | SaveFailed

text \<open>
  The module's global variables. \<^verbatim>\<open>selectedCharacter\<close> is a reference to one
  of the objects of \<^verbatim>\<open>characterData\<close>: its position there.
  \<^verbatim>\<open>omicronAbilityIndex\<close> is the \<^verbatim>\<open>Map\<close> from a character id to its set
  of omicron modes.
\<close>

record editor_state =
  characterData :: "character list"
  selectedCharacter :: "nat option"
  includeSynergy :: bool
  includeOmicron :: bool
  selectedOmicronModeSet :: "int list"
  omicronAbilityIndex :: "string \<rightharpoonup> int list"
  currentDraft :: "draft option"
  currentDraftBaseline :: "draft option"
  draftIsDirty :: bool
  hasUnsavedChanges :: bool
  alerts :: "alert_message list"

section \<open>Synergy matcher\<close>

text \<open>\<^verbatim>\<open>arr.includes(x)\<close> on an array of strings.\<close>

definition includes_arr :: "'a list \<Rightarrow> 'a \<Rightarrow> bool" where
  "includes_arr arr x = (x \<in> set arr)"

text \<open>
  \<^verbatim>\<open>doesSynergyOmicronApplyToCharacter\<close> (editor.js 1941-1944), as the truth
  value its callers test.
\<close>

definition doesSynergyOmicronApplyToCharacter :: "synergy_set \<Rightarrow> character \<Rightarrow> bool" where
  "doesSynergyOmicronApplyToCharacter synergySet character =
     (case characters synergySet of
        None \<Rightarrow> False
      | Some cs \<Rightarrow> includes_arr cs (id_c character))"

text \<open>The body of the loop over \<^verbatim>\<open>categoryDefinitions\<close> (editor.js 1964-1978).\<close>

definition catDefMatches :: "category_def \<Rightarrow> string list \<Rightarrow> bool" where
  "catDefMatches catDef charCategories =
     (let includeCategories = (case include_cd catDef of None \<Rightarrow> [] | Some xs \<Rightarrow> xs);
          excludeCategories = (case exclude_cd catDef of None \<Rightarrow> [] | Some xs \<Rightarrow> xs);
          hasAllIncludes = list_all (\<lambda>cat. includes_arr charCategories cat) includeCategories;
          hasAnyExcludes = list_ex (\<lambda>cat. includes_arr charCategories cat) excludeCategories
      in hasAllIncludes \<and> \<not> hasAnyExcludes)"

fun anyCatDefMatches :: "category_def list \<Rightarrow> string list \<Rightarrow> bool" where
  "anyCatDefMatches [] charCategories = False"
| "anyCatDefMatches (catDef # rest) charCategories =
     (if catDefMatches catDef charCategories then True
      else anyCatDefMatches rest charCategories)"

text \<open>\<^verbatim>\<open>doesSynergySetApplyToCharacter\<close> (editor.js 1953-1982).\<close>

definition doesSynergySetApplyToCharacter :: "synergy_set \<Rightarrow> character \<Rightarrow> bool" where
  "doesSynergySetApplyToCharacter synergySet character =
     (if (case characters synergySet of
            None \<Rightarrow> False
          | Some cs \<Rightarrow> includes_arr cs (id_c character))
      then True
      else case categoryDefinitions synergySet of
             None \<Rightarrow> False
           | Some defs \<Rightarrow>
               if length defs > 0
               then anyCatDefMatches defs
                      (case categories character of None \<Rightarrow> [] | Some cats \<Rightarrow> cats)
               else False)"

section \<open>Tier resolver\<close>

text \<open>The helper \<^verbatim>\<open>hasMatchingOmicronAbilities\<close> of \<^verbatim>\<open>calculateFinalTier\<close> (editor.js 1681-1692).\<close>

definition hasMatchingOmicronAbilities :: "editor_state \<Rightarrow> string \<Rightarrow> bool" where
  "hasMatchingOmicronAbilities st cid =
     (if length (selectedOmicronModeSet st) = 0 then False
      else case omicronAbilityIndex st cid of
             None \<Rightarrow> False
           | Some characterModes \<Rightarrow>
               list_ex (\<lambda>mode. includes_arr (selectedOmicronModeSet st) mode) characterModes)"

text \<open>The personal omicron component (editor.js 1697-1706).\<close>

definition personalOmicron :: "editor_state \<Rightarrow> character \<Rightarrow> int" where
  "personalOmicron st character =
     (let hasOmicronAbilities = hasMatchingOmicronAbilities st (id_c character) in
      if omicronBoost character \<noteq> None \<and> hasOmicronAbilities then the (omicronBoost character)
      else if hasOmicronAbilities then 1
      else 0)"

text \<open>
  The scan for a synergy omicron (editor.js 1708-1731). The two loops update the pair
  \<^verbatim>\<open>(bestSynergyOmicronBonus, bestSynergyOmicronSource)\<close>; the inner one runs
  over the synergy sets of one \<^verbatim>\<open>otherChar\<close>, the outer one over
  \<^verbatim>\<open>characterData\<close>.
\<close>

fun scanSynergySets ::
  "character \<Rightarrow> string \<Rightarrow> synergy_set list \<Rightarrow> int \<times> string option \<Rightarrow> int \<times> string option" where
  "scanSynergySets character otherId [] best = best"
| "scanSynergySets character otherId (synergySet # rest) (bestBonus, bestSource) =
     (let synergyOmicronBonus =
            (case synergyEnhancementOmicron synergySet of None \<Rightarrow> 0 | Some v \<Rightarrow> v)
      in if synergyOmicronBonus = 0
         then scanSynergySets character otherId rest (bestBonus, bestSource)
         else if doesSynergyOmicronApplyToCharacter synergySet character
                 \<and> synergyOmicronBonus > bestBonus
         then scanSynergySets character otherId rest (synergyOmicronBonus, Some otherId)
         else scanSynergySets character otherId rest (bestBonus, bestSource))"

fun scanCharacters ::
  "editor_state \<Rightarrow> character \<Rightarrow> character list \<Rightarrow> int \<times> string option \<Rightarrow> int \<times> string option" where
  "scanCharacters st character [] best = best"
| "scanCharacters st character (otherChar # rest) best =
     (case synergySets otherChar of
        None \<Rightarrow> scanCharacters st character rest best
      | Some sets \<Rightarrow>
          if length sets = 0 then scanCharacters st character rest best
          else if \<not> hasMatchingOmicronAbilities st (id_c otherChar)
          then scanCharacters st character rest best
          else scanCharacters st character rest
                 (scanSynergySets character (id_c otherChar) sets best))"

definition bestSynergyOmicron :: "editor_state \<Rightarrow> character \<Rightarrow> int \<times> string option" where
  "bestSynergyOmicron st character = scanCharacters st character (characterData st) (0, None)"

text \<open>
  The objects \<^verbatim>\<open>bestStandard\<close> and \<^verbatim>\<open>bestOmicron\<close> of
  \<^verbatim>\<open>calculateSynergyTiers\<close>, and what \<^verbatim>\<open>calculateFinalTier\<close> returns.
\<close>

record tier_result =
  finalTier :: int
  appliedOmicronBonus :: int
  omicronSource :: "string option"

record synergy_tier = tier_result +
  baseTier_t :: int
  synergyEnhancement_t :: int
  synergySet_t :: synergy_set
  setIndex :: nat

text \<open>
  The callback of the \<^verbatim>\<open>forEach\<close> of \<^verbatim>\<open>calculateSynergyTiers\<close>
  (editor.js 1998-2035): it updates the pair \<^verbatim>\<open>(bestStandard, bestOmicron)\<close>.
\<close>

definition synergyTiersCallback ::
  "character \<Rightarrow> int \<Rightarrow> synergy_set \<Rightarrow> nat \<Rightarrow>
   synergy_tier option \<times> synergy_tier option \<Rightarrow> synergy_tier option \<times> synergy_tier option" where
  "synergyTiersCallback character omiBoost synergySet i best =
     (let bestStandard = fst best;
          bestOmicron = snd best;
          standardEnhancement =
            (case synergyEnhancement synergySet of
               None \<Rightarrow> 0
             | Some v \<Rightarrow> if v = 0 then 0 else v);
          standardTier = baseTier character - standardEnhancement;
          bestStandard' =
            (if standardEnhancement > 0
                \<and> (case bestStandard of None \<Rightarrow> True | Some b \<Rightarrow> standardTier < finalTier b)
             then Some \<lparr>finalTier = standardTier, appliedOmicronBonus = 0,
                         omicronSource = None, baseTier_t = baseTier character,
                         synergyEnhancement_t = standardEnhancement,
                         synergySet_t = synergySet, setIndex = i\<rparr>
             else bestStandard);
          omicronTier = baseTier character - omiBoost - standardEnhancement;
          bestOmicron' =
            (if omiBoost > 0 \<and> standardEnhancement > 0
                \<and> (case bestOmicron of None \<Rightarrow> True | Some b \<Rightarrow> omicronTier < finalTier b)
             then Some \<lparr>finalTier = omicronTier, appliedOmicronBonus = omiBoost,
                         omicronSource = Some ''character'', baseTier_t = baseTier character,
                         synergyEnhancement_t = standardEnhancement,
                         synergySet_t = synergySet, setIndex = i\<rparr>
             else bestOmicron)
      in (bestStandard', bestOmicron'))"

fun synergyTiersLoop ::
  "character \<Rightarrow> int \<Rightarrow> synergy_set list \<Rightarrow> nat \<Rightarrow>
   synergy_tier option \<times> synergy_tier option \<Rightarrow> synergy_tier option \<times> synergy_tier option" where
  "synergyTiersLoop character omiBoost [] i best = best"
| "synergyTiersLoop character omiBoost (synergySet # rest) i best =
     synergyTiersLoop character omiBoost rest (Suc i)
       (synergyTiersCallback character omiBoost synergySet i best)"

text \<open>\<^verbatim>\<open>calculateSynergyTiers\<close> (editor.js 1987-2038).\<close>

definition calculateSynergyTiers :: "character \<Rightarrow> synergy_tier option \<times> synergy_tier option" where
  "calculateSynergyTiers character =
     (let omiBoost = (case omicronBoost character of None \<Rightarrow> 0 | Some v \<Rightarrow> v) in
      case synergySets character of
        None \<Rightarrow> (None, None)
      | Some sets \<Rightarrow>
          if length sets = 0 then (None, None)
          else synergyTiersLoop character omiBoost sets 0 (None, None))"

text \<open>
  The omicron block of \<^verbatim>\<open>calculateFinalTier\<close> (editor.js 1694-1743): the
  applied bonus and its source.
\<close>

definition omicronBlock :: "editor_state \<Rightarrow> character \<Rightarrow> int \<times> string option" where
  "omicronBlock st character =
     (if includeOmicron st
      then let personal = personalOmicron st character;
               (bestSynergyOmicronBonus, bestSynergyOmicronSource) =
                  bestSynergyOmicron st character
           in if personal > 0 \<and> personal \<ge> bestSynergyOmicronBonus
              then (personal, Some ''character'')
              else if bestSynergyOmicronBonus > 0
              then (bestSynergyOmicronBonus, bestSynergyOmicronSource)
              else (0, None)
      else (0, None))"

text \<open>\<^verbatim>\<open>calculateFinalTier\<close> (editor.js 1675-1771).\<close>

definition calculateFinalTier :: "editor_state \<Rightarrow> character \<Rightarrow> tier_result" where
  "calculateFinalTier st character =
     (let (applied, source) = omicronBlock st character;
          finalTier1 = baseTier character - applied;
          finalTier2 =
            (if includeSynergy st
                \<and> (case synergySets character of None \<Rightarrow> False | Some sets \<Rightarrow> length sets > 0)
             then let (bestStandard, bestOmicron) = calculateSynergyTiers character;
                      bestSynergy =
                        (if includeOmicron st \<and> bestOmicron \<noteq> None then bestOmicron
                         else if bestStandard \<noteq> None then bestStandard
                         else None)
                  in (case bestSynergy of
                        None \<Rightarrow> finalTier1
                      | Some b \<Rightarrow> baseTier character - applied - synergyEnhancement_t b)
             else finalTier1)
      in \<lparr>finalTier = max 1 (min 19 finalTier2),
          appliedOmicronBonus = applied,
          omicronSource = source\<rparr>)"

section \<open>Slot accountant\<close>

text \<open>
  \<^verbatim>\<open>getSynergySlotUsage\<close> (editor.js 4034-4052). The argument may be missing
  (\<open>None\<close>); \<^verbatim>\<open>catDef.numberMatchesRequired || 0\<close> counts an absent or zero
  property as 0.
\<close>

definition getSynergySlotUsage :: "synergy_set option \<Rightarrow> int" where
  "getSynergySlotUsage arg =
     (case arg of
        None \<Rightarrow> 0
      | Some synergySet \<Rightarrow>
          (let totalSlots1 =
                 (case characters synergySet of
                    None \<Rightarrow> 0
                  | Some cs \<Rightarrow> 0 + int (length cs));
               totalSlots2 =
                 (case categoryDefinitions synergySet of
                    None \<Rightarrow> totalSlots1
                  | Some defs \<Rightarrow>
                      totalSlots1 +
                      fold (\<lambda>catDef sum.
                              sum + (case numberMatchesRequired catDef of
                                       None \<Rightarrow> 0
                                     | Some n \<Rightarrow> if n = 0 then 0 else n))
                        defs 0)
           in totalSlots2))"

section \<open>Draft session\<close>

text \<open>
  The comparison loops of \<^verbatim>\<open>deepEqualDrafts\<close> (editor.js 562-691). A function
  named \<open>...Differ\<close> is true where the source returns \<^verbatim>\<open>false\<close> from inside
  the block it models; the loops run over the first array and read the second by index.
\<close>

fun elementsEqual :: "'a list \<Rightarrow> 'a list \<Rightarrow> bool" where
  "elementsEqual [] ys = True"
| "elementsEqual (x # xs) [] = False"
| "elementsEqual (x # xs) (y # ys) = (if x \<noteq> y then False else elementsEqual xs ys)"

definition arraysDiffer :: "'a list option \<Rightarrow> 'a list option \<Rightarrow> bool" where
  "arraysDiffer a1 a2 =
     (if (a1 = None) \<noteq> (a2 = None) then True
      else case a1 of
             None \<Rightarrow> False
           | Some xs \<Rightarrow>
               (case a2 of
                  None \<Rightarrow> False
                | Some ys \<Rightarrow>
                    if length xs \<noteq> length ys then True
                    else \<not> elementsEqual xs ys))"

definition catDefsDiffer :: "category_def \<Rightarrow> category_def \<Rightarrow> bool" where
  "catDefsDiffer catDef1 catDef2 =
     (if numberMatchesRequired catDef1 \<noteq> numberMatchesRequired catDef2 then True
      else if arraysDiffer (include_cd catDef1) (include_cd catDef2) then True
      else if arraysDiffer (exclude_cd catDef1) (exclude_cd catDef2) then True
      else False)"

fun catDefsLoop :: "category_def list \<Rightarrow> category_def list \<Rightarrow> bool" where
  "catDefsLoop [] ys = True"
| "catDefsLoop (x # xs) [] = False"
| "catDefsLoop (x # xs) (y # ys) = (if catDefsDiffer x y then False else catDefsLoop xs ys)"

definition catDefArraysDiffer ::
  "category_def list option \<Rightarrow> category_def list option \<Rightarrow> bool" where
  "catDefArraysDiffer cd1 cd2 =
     (if (cd1 = None) \<noteq> (cd2 = None) then True
      else case cd1 of
             None \<Rightarrow> False
           | Some xs \<Rightarrow>
               (case cd2 of
                  None \<Rightarrow> False
                | Some ys \<Rightarrow>
                    if length xs \<noteq> length ys then True
                    else \<not> catDefsLoop xs ys))"

definition synergySetsDiffer :: "synergy_set \<Rightarrow> synergy_set \<Rightarrow> bool" where
  "synergySetsDiffer set1 set2 =
     (if synergyEnhancement set1 \<noteq> synergyEnhancement set2 then True
      else if synergyEnhancementOmicron set1 \<noteq> synergyEnhancementOmicron set2 then True
      else if arraysDiffer (characters set1) (characters set2) then True
      else if catDefArraysDiffer (categoryDefinitions set1) (categoryDefinitions set2) then True
      else if arraysDiffer (skipIfPresentCharacters set1) (skipIfPresentCharacters set2)
      then True
      else False)"

fun synergySetsLoop :: "synergy_set list \<Rightarrow> synergy_set list \<Rightarrow> bool" where
  "synergySetsLoop [] ys = True"
| "synergySetsLoop (x # xs) [] = False"
| "synergySetsLoop (x # xs) (y # ys) =
     (if synergySetsDiffer x y then False else synergySetsLoop xs ys)"

definition synergySetArraysDiffer ::
  "synergy_set list option \<Rightarrow> synergy_set list option \<Rightarrow> bool" where
  "synergySetArraysDiffer ss1 ss2 =
     (if (ss1 = None) \<noteq> (ss2 = None) then True
      else case ss1 of
             None \<Rightarrow> False
           | Some xs \<Rightarrow>
               (case ss2 of
                  None \<Rightarrow> False
                | Some ys \<Rightarrow>
                    if length xs \<noteq> length ys then True
                    else \<not> synergySetsLoop xs ys))"

text \<open>\<^verbatim>\<open>ir?.gear || false\<close>, for the property \<open>f\<close> of an optional object.\<close>

definition flagOrFalse :: "ignore_flags option \<Rightarrow> (ignore_flags \<Rightarrow> bool option) \<Rightarrow> bool" where
  "flagOrFalse ir f =
     (case ir of
        None \<Rightarrow> False
      | Some r \<Rightarrow> (case f r of None \<Rightarrow> False | Some b \<Rightarrow> if b then True else False))"

text \<open>\<^verbatim>\<open>deepEqualDrafts\<close> (editor.js 562-691); \<open>None\<close> is \<^verbatim>\<open>null\<close>.\<close>

definition deepEqualDrafts :: "draft option \<Rightarrow> draft option \<Rightarrow> bool" where
  "deepEqualDrafts arg1 arg2 =
     (case arg1 of
        None \<Rightarrow> (case arg2 of None \<Rightarrow> True | Some draft2 \<Rightarrow> False)
      | Some draft1 \<Rightarrow>
          (case arg2 of
             None \<Rightarrow> False
           | Some draft2 \<Rightarrow>
               if baseTier draft1 \<noteq> baseTier draft2 then False
               else if omicronBoost draft1 \<noteq> omicronBoost draft2 then False
               else if requiresAllZetas draft1 \<noteq> requiresAllZetas draft2 then False
               else if requiresAllOmicrons draft1 \<noteq> requiresAllOmicrons draft2 then False
               else if flagOrFalse (ignoreRequirements draft1) gear
                         \<noteq> flagOrFalse (ignoreRequirements draft2) gear then False
               else if flagOrFalse (ignoreRequirements draft1) rarity
                         \<noteq> flagOrFalse (ignoreRequirements draft2) rarity then False
               else if flagOrFalse (ignoreSynergyRequirements draft1) gear
                         \<noteq> flagOrFalse (ignoreSynergyRequirements draft2) gear then False
               else if flagOrFalse (ignoreSynergyRequirements draft1) rarity
                         \<noteq> flagOrFalse (ignoreSynergyRequirements draft2) rarity then False
               else if arraysDiffer (requiredZetas draft1) (requiredZetas draft2) then False
               else if arraysDiffer (requiredOmicrons draft1) (requiredOmicrons draft2) then False
               else if arraysDiffer (categories draft1) (categories draft2) then False
               else if synergySetArraysDiffer (synergySets draft1) (synergySets draft2)
               then False
               else True))"

text \<open>\<^verbatim>\<open>refreshDraftDirtyState\<close> (editor.js 693-700).\<close>

definition refreshDraftDirtyState :: "editor_state \<Rightarrow> editor_state" where
  "refreshDraftDirtyState st =
     (if currentDraft st = None \<or> currentDraftBaseline st = None
      then st\<lparr>draftIsDirty := False\<rparr>
      else st\<lparr>draftIsDirty := \<not> deepEqualDrafts (currentDraft st) (currentDraftBaseline st)\<rparr>)"

text \<open>
  \<^verbatim>\<open>initializeDraft\<close> (editor.js 759-797). The snapshot copies every nested
  array; the JSON round trip that follows drops the properties that are
  \<^verbatim>\<open>undefined\<close>, which are the \<open>None\<close> of this model.
\<close>

definition deepCloneSynergySets :: "synergy_set list option \<Rightarrow> synergy_set list option" where
  "deepCloneSynergySets sets =
     (case sets of
        None \<Rightarrow> None
      | Some ss \<Rightarrow>
          Some (map (\<lambda>s. s\<lparr>characters :=
                              (case characters s of None \<Rightarrow> None | Some cs \<Rightarrow> Some cs),
                            skipIfPresentCharacters :=
                              (case skipIfPresentCharacters s of
                                 None \<Rightarrow> None | Some cs \<Rightarrow> Some cs),
                            categoryDefinitions :=
                              (case categoryDefinitions s of
                                 None \<Rightarrow> None
                               | Some defs \<Rightarrow>
                                   Some (map (\<lambda>catDef. catDef\<lparr>include_cd :=
                                                (case include_cd catDef of
                                                   None \<Rightarrow> None | Some xs \<Rightarrow> Some xs),
                                              exclude_cd :=
                                                (case exclude_cd catDef of
                                                   None \<Rightarrow> None | Some xs \<Rightarrow> Some xs)\<rparr>)
                                          defs))\<rparr>)
                    ss))"

definition draftSnapshot :: "character \<Rightarrow> draft" where
  "draftSnapshot character =
     \<lparr>baseTier = baseTier character,
      omicronBoost = omicronBoost character,
      ignoreRequirements =
        (case ignoreRequirements character of None \<Rightarrow> None | Some ir \<Rightarrow> Some ir),
      ignoreSynergyRequirements =
        (case ignoreSynergyRequirements character of None \<Rightarrow> None | Some ir \<Rightarrow> Some ir),
      requiredZetas = requiredZetas character,
      requiresAllZetas = requiresAllZetas character,
      requiredOmicrons = requiredOmicrons character,
      requiresAllOmicrons = requiresAllOmicrons character,
      categories = categories character,
      synergySets = deepCloneSynergySets (synergySets character),
      characterId = id_c character\<rparr>"

definition initializeDraft :: "editor_state \<Rightarrow> character \<Rightarrow> editor_state" where
  "initializeDraft st character =
     st\<lparr>currentDraft := Some (draftSnapshot character),
        currentDraftBaseline := Some (draftSnapshot character),
        draftIsDirty := False\<rparr>"

text \<open>
  \<^verbatim>\<open>z.trim() !== ''\<close>: a string is kept unless it is made of white space only
  (the ASCII white space; ids and tags are ASCII).
\<close>

definition isWhiteSpace :: "char \<Rightarrow> bool" where
  "isWhiteSpace c =
     includes_arr [CHR 0x09, CHR 0x0A, CHR 0x0B, CHR 0x0C, CHR 0x0D, CHR 0x20] c"

definition trimIsEmpty :: "string \<Rightarrow> bool" where
  "trimIsEmpty z = list_all isWhiteSpace z"

definition filterBlank :: "string list \<Rightarrow> string list" where
  "filterBlank zs = filter (\<lambda>z. \<not> trimIsEmpty z) zs"

text \<open>The validation loop of \<^verbatim>\<open>updateCharacter\<close> (editor.js 2747-2768): the first alert, if any.\<close>

fun validateSynergySets :: "nat \<Rightarrow> synergy_set list \<Rightarrow> alert_message option" where
  "validateSynergySets i [] = None"
| "validateSynergySets i (s # rest) =
     (if (case synergyEnhancement s of None \<Rightarrow> False | Some v \<Rightarrow> v < 0 \<or> v > 10)
      then Some (SynergyEnhancementRange (i + 1))
      else if (case synergyEnhancementOmicron s of None \<Rightarrow> False | Some v \<Rightarrow> v < 0 \<or> v > 10)
      then Some (SynergyOmicronBoostRange (i + 1))
      else let slotsUsed = getSynergySlotUsage (Some s) in
           if slotsUsed < 1 \<or> slotsUsed > 4
           then let charCount = int (length (case characters s of None \<Rightarrow> [] | Some cs \<Rightarrow> cs));
                    matchCount = slotsUsed - charCount
                in Some (SynergySlotUsage (i + 1) slotsUsed charCount matchCount)
           else validateSynergySets (Suc i) rest)"

text \<open>
  The checks of \<^verbatim>\<open>updateCharacter\<close> before it writes anything (editor.js
  2735-2768), in the source's order.
\<close>

definition validateDraft :: "draft \<Rightarrow> alert_message option" where
  "validateDraft d =
     (if baseTier d < 1 \<or> baseTier d > 19 then Some BaseTierRange
      else if (case omicronBoost d of None \<Rightarrow> False | Some v \<Rightarrow> v < 0 \<or> v > 10)
      then Some OmicronBoostRange
      else case synergySets d of
             None \<Rightarrow> None
           | Some sets \<Rightarrow> validateSynergySets 0 sets)"

text \<open>The writes of \<^verbatim>\<open>updateCharacter\<close> into the selected character (editor.js 2770-2859).\<close>

definition filteredOrDeleted :: "string list option \<Rightarrow> string list option" where
  "filteredOrDeleted arr =
     (case arr of
        None \<Rightarrow> None
      | Some zs \<Rightarrow> (let filtered = filterBlank zs in
                    if length filtered > 0 then Some filtered else None))"

definition applyDraft :: "character \<Rightarrow> draft \<Rightarrow> character" where
  "applyDraft sel d =
     sel\<lparr>baseTier := baseTier d,
         omicronBoost := omicronBoost d,
         ignoreRequirements := ignoreRequirements d,
         ignoreSynergyRequirements := ignoreSynergyRequirements d,
         requiredZetas := filteredOrDeleted (requiredZetas d),
         requiresAllZetas := requiresAllZetas d,
         requiredOmicrons := filteredOrDeleted (requiredOmicrons d),
         requiresAllOmicrons := requiresAllOmicrons d,
         synergySets :=
           (case synergySets d of
              None \<Rightarrow> None
            | Some sets \<Rightarrow>
                Some (map (\<lambda>s. s\<lparr>characters := filteredOrDeleted (characters s),
                                  skipIfPresentCharacters :=
                                    filteredOrDeleted (skipIfPresentCharacters s),
                                  categoryDefinitions :=
                                    (case categoryDefinitions s of
                                       None \<Rightarrow> None
                                     | Some defs \<Rightarrow> Some (map (\<lambda>catDef. catDef) defs))\<rparr>)
                        sets)),
         categories :=
           (case categories d of
              None \<Rightarrow> None
            | Some cats \<Rightarrow> if length cats > 0 then filteredOrDeleted (Some cats) else None)\<rparr>"

text \<open>
  \<^verbatim>\<open>updateCharacter\<close> (editor.js 2732-2872). Status line and rendering are
  outside the model; an \<^verbatim>\<open>alert\<close> is appended to \<open>alerts\<close>. A selection
  that is not a position of the dataset stands for a reference to an object that is no
  longer in \<^verbatim>\<open>characterData\<close>: the writes then leave the dataset as it is, and
  the model says nothing about that object.
\<close>

definition updateCharacter :: "editor_state \<Rightarrow> editor_state" where
  "updateCharacter st =
     (case selectedCharacter st of
        None \<Rightarrow> st
      | Some i \<Rightarrow>
          (case currentDraft st of
             None \<Rightarrow> st
           | Some d \<Rightarrow>
               (case validateDraft d of
                  Some msg \<Rightarrow> st\<lparr>alerts := alerts st @ [msg]\<rparr>
                | None \<Rightarrow>
                    (let sel = applyDraft (characterData st ! i) d;
                         st1 = st\<lparr>characterData := (characterData st)[i := sel],
                                  hasUnsavedChanges := True\<rparr>
                     in initializeDraft st1 sel))))"

section \<open>Persistence\<close>







section \<open>Notions of the specification\<close>

text \<open>
  The definitions of this section follow the words of the specification, not the code;
  the theorems below compare the two.
\<close>




text \<open>
  A character \<open>x\<close> grants the omicron bonus \<open>v\<close> to \<open>target\<close>: it qualifies for
  an omicron bonus and one of its synergy sets carries
  \<^verbatim>\<open>synergyEnhancementOmicron = v\<close> and lists the target explicitly.
\<close>

definition ownSets :: "character \<Rightarrow> synergy_set list" where
  "ownSets x = (case synergySets x of None \<Rightarrow> [] | Some sets \<Rightarrow> sets)"

definition grantsOmicron :: "editor_state \<Rightarrow> character \<Rightarrow> character \<Rightarrow> int \<Rightarrow> bool" where
  "grantsOmicron st target x v =
     (hasMatchingOmicronAbilities st (id_c x)
      \<and> list_ex (\<lambda>s. synergyEnhancementOmicron s = Some v
                     \<and> doesSynergyOmicronApplyToCharacter s target) (ownSets x))"

text \<open>
  The omicron values collected for a target from a list of synergy sets (those that are
  positive, in sets that list the target explicitly), and from the qualifying characters
  of a dataset that satisfy \<open>among\<close>. The externally granted component is the maximum
  collected from the characters other than the target, 0 when nothing is collected.
  \<open>noSelfGrant\<close>: nothing is collected from the target's own sets.
\<close>

definition collectedFrom :: "character \<Rightarrow> synergy_set list \<Rightarrow> int list" where
  "collectedFrom target sets =
     concat (map (\<lambda>s. case synergyEnhancementOmicron s of
                         None \<Rightarrow> []
                       | Some v \<Rightarrow> if v > 0 \<and> doesSynergyOmicronApplyToCharacter s target
                                   then [v] else [])
               sets)"

definition collectedOmicron ::
  "(character \<Rightarrow> bool) \<Rightarrow> editor_state \<Rightarrow> character \<Rightarrow> character list \<Rightarrow> int list" where
  "collectedOmicron among st target chars =
     concat (map (\<lambda>x. if among x \<and> hasMatchingOmicronAbilities st (id_c x)
                        then collectedFrom target (ownSets x) else []) chars)"

definition externalOmicron_spec :: "editor_state \<Rightarrow> character \<Rightarrow> int" where
  "externalOmicron_spec st target =
     (let vs = collectedOmicron (\<lambda>x. id_c x \<noteq> id_c target) st target (characterData st)
      in if vs = [] then 0 else Max (set vs))"

definition noSelfGrant :: "editor_state \<Rightarrow> character \<Rightarrow> bool" where
  "noSelfGrant st target =
     (collectedOmicron (\<lambda>x. id_c x = id_c target) st target (characterData st) = [])"

text \<open>
  The per-record checks of a commit: a synergy set fails when an enhancement that is
  present lies outside 0..10 or its slot usage lies outside 1..4; a draft fails when its
  base tier lies outside 1..19, its omicron boost is present and outside 0..10, or one of
  its synergy sets fails.
\<close>

definition setCheckFails :: "synergy_set \<Rightarrow> bool" where
  "setCheckFails s =
     ((case synergyEnhancement s of None \<Rightarrow> False | Some v \<Rightarrow> v < 0 \<or> v > 10)
      \<or> (case synergyEnhancementOmicron s of None \<Rightarrow> False | Some v \<Rightarrow> v < 0 \<or> v > 10)
      \<or> getSynergySlotUsage (Some s) < 1 \<or> getSynergySlotUsage (Some s) > 4)"

definition draftCheckFails :: "draft \<Rightarrow> bool" where
  "draftCheckFails d =
     (baseTier d < 1 \<or> baseTier d > 19
      \<or> (case omicronBoost d of None \<Rightarrow> False | Some v \<Rightarrow> v < 0 \<or> v > 10)
      \<or> list_ex setCheckFails (case synergySets d of None \<Rightarrow> [] | Some sets \<Rightarrow> sets))"

text \<open>
  What two drafts agree on when \<^verbatim>\<open>deepEqualDrafts\<close> holds: every scalar and
  every optional array, an absent array being different from an empty one, and the
  truth of the four ignore flags, where an absent object, an absent flag and
  \<^verbatim>\<open>false\<close> are alike. The \<^verbatim>\<open>characterId\<close> is not compared.
\<close>

definition comparedFieldsAgree :: "draft \<Rightarrow> draft \<Rightarrow> bool" where
  "comparedFieldsAgree d1 d2 =
     (baseTier d1 = baseTier d2
      \<and> omicronBoost d1 = omicronBoost d2
      \<and> requiresAllZetas d1 = requiresAllZetas d2
      \<and> requiresAllOmicrons d1 = requiresAllOmicrons d2
      \<and> flagOrFalse (ignoreRequirements d1) gear = flagOrFalse (ignoreRequirements d2) gear
      \<and> flagOrFalse (ignoreRequirements d1) rarity = flagOrFalse (ignoreRequirements d2) rarity
      \<and> flagOrFalse (ignoreSynergyRequirements d1) gear
          = flagOrFalse (ignoreSynergyRequirements d2) gear
      \<and> flagOrFalse (ignoreSynergyRequirements d1) rarity
          = flagOrFalse (ignoreSynergyRequirements d2) rarity
      \<and> requiredZetas d1 = requiredZetas d2
      \<and> requiredOmicrons d1 = requiredOmicrons d2
      \<and> categories d1 = categories d2
      \<and> synergySets d1 = synergySets d2)"


section \<open>Invariants of the loops\<close>





section \<open>Example data\<close>

text \<open>
  The initial values of the globals (editor.js 4-28), the character that
  \<^verbatim>\<open>submitNewCharacter\<close> creates and the templates that
  \<^verbatim>\<open>addSynergySet\<close> and \<^verbatim>\<open>addCategoryDefinition\<close> push.
\<close>

definition initialState :: editor_state where
  "initialState =
     \<lparr>characterData = [], selectedCharacter = None, includeSynergy = False,
      includeOmicron = False, selectedOmicronModeSet = [9, 14, 15, 7, 8],
      omicronAbilityIndex = Map.empty, currentDraft = None, currentDraftBaseline = None,
      draftIsDirty = False, hasUnsavedChanges = False, alerts = []\<rparr>"

definition newCharacter :: "string \<Rightarrow> character" where
  "newCharacter cid =
     \<lparr>baseTier = 17, omicronBoost = None, ignoreRequirements = None,
      ignoreSynergyRequirements = None, requiredZetas = None, requiresAllZetas = None,
      requiredOmicrons = None, requiresAllOmicrons = None, categories = None,
      synergySets = None, id_c = cid\<rparr>"

definition synergySetTemplate :: synergy_set where
  "synergySetTemplate =
     \<lparr>synergyEnhancement = Some 0, synergyEnhancementOmicron = None, characters = Some [],
      skipIfPresentCharacters = None, categoryDefinitions = None\<rparr>"

definition categoryDefinitionTemplate :: category_def where
  "categoryDefinitionTemplate =
     \<lparr>include_cd = Some [], exclude_cd = None, numberMatchesRequired = Some 1\<rparr>"

text \<open>
  A small dataset: \<open>A\<close> (tier 8) owns a synergy of 3 with \<open>B\<close> and \<open>C\<close>;
  \<open>X\<close> has an omicron ability of a selected mode and grants an omicron bonus of 4 to
  \<open>Y\<close> (tier 10), which has none of its own.
\<close>

definition exampleA :: character where
  "exampleA = (newCharacter ''A'')
     \<lparr>baseTier := 8,
      synergySets := Some [synergySetTemplate\<lparr>synergyEnhancement := Some 3,
          characters := Some [''B'', ''C'']\<rparr>]\<rparr>"

definition exampleX :: character where
  "exampleX = (newCharacter ''X'')
     \<lparr>synergySets := Some [synergySetTemplate\<lparr>synergyEnhancement := None,
          synergyEnhancementOmicron := Some 4, characters := Some [''Y'']\<rparr>]\<rparr>"

definition exampleY :: character where
  "exampleY = (newCharacter ''Y'')\<lparr>baseTier := 10\<rparr>"

definition exampleState :: editor_state where
  "exampleState = initialState
     \<lparr>characterData := [exampleA, exampleX, exampleY], includeSynergy := True,
      includeOmicron := True, omicronAbilityIndex := [''X'' \<mapsto> [9]]\<rparr>"

text \<open>A set that lists \<open>B\<close> and asks for one Sith, and a Sith that it does not list.\<close>

definition exampleSithSet :: synergy_set where
  "exampleSithSet = synergySetTemplate
     \<lparr>synergyEnhancement := Some 2, synergyEnhancementOmicron := Some 1,
      characters := Some [''B''],
      categoryDefinitions := Some [categoryDefinitionTemplate\<lparr>include_cd := Some [''Sith''],
          exclude_cd := Some [''Jedi'']\<rparr>]\<rparr>"

definition exampleSith :: character where
  "exampleSith = (newCharacter ''S'')\<lparr>categories := Some [''Sith'', ''Empire'']\<rparr>"

text \<open>
  \<open>Y\<close> with an omicron ability and a boost of its own, in a state where both
  \<open>X\<close> and \<open>Y\<close> qualify.
\<close>

definition exampleYOwn :: character where
  "exampleYOwn = exampleY\<lparr>omicronBoost := Some 2\<rparr>"

definition exampleStateBoth :: editor_state where
  "exampleStateBoth = exampleState\<lparr>omicronAbilityIndex := [''X'' \<mapsto> [9], ''Y'' \<mapsto> [14]]\<rparr>"

text \<open>
  A dataset of one character \<open>T\<close> that has an omicron ability of a selected mode
  and lists itself in a synergy set with an omicron enhancement of 4.
\<close>

definition exampleSelf :: character where
  "exampleSelf = (newCharacter ''T'')
     \<lparr>baseTier := 10,
      synergySets := Some [synergySetTemplate\<lparr>synergyEnhancement := None,
          synergyEnhancementOmicron := Some 4, characters := Some [''T'']\<rparr>]\<rparr>"

definition exampleSelfState :: editor_state where
  "exampleSelfState = initialState
     \<lparr>characterData := [exampleSelf], includeOmicron := True,
      omicronAbilityIndex := [''T'' \<mapsto> [9]]\<rparr>"

text \<open>
  Synergy sets with two characters and one category definition that asks for 2 and for 3
  matches, and the editor with \<open>A\<close> selected and a draft of \<open>A\<close> that holds one set.
\<close>

definition exampleFourSlots :: synergy_set where
  "exampleFourSlots = synergySetTemplate
     \<lparr>synergyEnhancement := Some 3, characters := Some [''B'', ''C''],
      categoryDefinitions := Some [categoryDefinitionTemplate\<lparr>include_cd := Some [''Sith''],
          numberMatchesRequired := Some 2\<rparr>]\<rparr>"

definition exampleFiveSlots :: synergy_set where
  "exampleFiveSlots = synergySetTemplate
     \<lparr>synergyEnhancement := Some 3, characters := Some [''B'', ''C''],
      categoryDefinitions := Some [categoryDefinitionTemplate\<lparr>include_cd := Some [''Sith''],
          numberMatchesRequired := Some 3\<rparr>]\<rparr>"

definition exampleEditing :: "synergy_set \<Rightarrow> editor_state" where
  "exampleEditing s = exampleState
     \<lparr>selectedCharacter := Some 0,
      currentDraft := Some ((draftSnapshot exampleA)\<lparr>synergySets := Some [s]\<rparr>),
      currentDraftBaseline := Some (draftSnapshot exampleA)\<rparr>"

text \<open>
  The draft of \<open>A\<close> as opened, and the same draft with an
  \<^verbatim>\<open>ignoreRequirements\<close> object that is present and empty.
\<close>

definition exampleDraft :: draft where
  "exampleDraft = draftSnapshot exampleA"

definition exampleDraftEmptyFlags :: draft where
  "exampleDraftEmptyFlags =
     exampleDraft\<lparr>ignoreRequirements := Some \<lparr>gear = None, rarity = None\<rparr>\<rparr>"

section \<open>Synergy matcher: properties\<close>

lemma includes_arr_iff: "includes_arr arr x \<longleftrightarrow> x \<in> set arr"
  by (simp add: includes_arr_def)

text \<open>
  C5. The omicron applicability predicate holds exactly when the candidate's id is in
  the set's explicit \<^verbatim>\<open>characters\<close> list (an absent list has no element); so
  it is false for a candidate that the standard predicate accepts through a category
  definition only.
\<close>

theorem doesSynergyOmicronApply_iff:
  "(doesSynergyOmicronApplyToCharacter s c \<longleftrightarrow>
      id_c c \<in> set (case characters s of None \<Rightarrow> [] | Some cs \<Rightarrow> cs))
   \<and> (doesSynergySetApplyToCharacter s c
        \<and> id_c c \<notin> set (case characters s of None \<Rightarrow> [] | Some cs \<Rightarrow> cs)
        \<longrightarrow> \<not> doesSynergyOmicronApplyToCharacter s c)"
  by (simp add: doesSynergyOmicronApplyToCharacter_def includes_arr_iff split: option.splits)

theorem doesSynergyOmicronApply_iff_witness:
  "doesSynergySetApplyToCharacter exampleSithSet exampleSith
   \<and> id_c exampleSith \<notin> set [''B'']
   \<and> \<not> doesSynergyOmicronApplyToCharacter exampleSithSet exampleSith
   \<and> doesSynergyOmicronApplyToCharacter exampleSithSet (newCharacter ''B'')"
  using doesSynergyOmicronApply_iff [of exampleSithSet exampleSith]
    doesSynergyOmicronApply_iff [of exampleSithSet "newCharacter ''B''"]
  by (simp add: exampleSithSet_def exampleSith_def newCharacter_def synergySetTemplate_def
      categoryDefinitionTemplate_def doesSynergySetApplyToCharacter_def catDefMatches_def
      includes_arr_def)

lemma catDefMatches_iff:
  "catDefMatches cd cats \<longleftrightarrow>
     (\<forall>t \<in> set (case include_cd cd of None \<Rightarrow> [] | Some xs \<Rightarrow> xs). t \<in> set cats)
     \<and> (\<forall>t \<in> set (case exclude_cd cd of None \<Rightarrow> [] | Some xs \<Rightarrow> xs). t \<notin> set cats)"
  by (simp add: catDefMatches_def Let_def includes_arr_iff list_all_iff list_ex_iff)

lemma anyCatDefMatches_iff:
  "anyCatDefMatches defs cats \<longleftrightarrow> (\<exists>cd \<in> set defs. catDefMatches cd cats)"
  by (induction defs) auto

text \<open>
  C6. The standard applicability predicate holds exactly when the candidate's id is in
  the set's \<^verbatim>\<open>characters\<close> list, or the candidate carries every
  \<^verbatim>\<open>include\<close> tag and no \<^verbatim>\<open>exclude\<close> tag of some category definition of
  the set. Absent lists count as empty.
\<close>

theorem doesSynergySetApply_iff:
  "doesSynergySetApplyToCharacter s c \<longleftrightarrow>
     id_c c \<in> set (case characters s of None \<Rightarrow> [] | Some cs \<Rightarrow> cs)
     \<or> (\<exists>cd \<in> set (case categoryDefinitions s of None \<Rightarrow> [] | Some defs \<Rightarrow> defs).
          (\<forall>t \<in> set (case include_cd cd of None \<Rightarrow> [] | Some xs \<Rightarrow> xs).
              t \<in> set (case categories c of None \<Rightarrow> [] | Some cats \<Rightarrow> cats))
          \<and> (\<forall>t \<in> set (case exclude_cd cd of None \<Rightarrow> [] | Some xs \<Rightarrow> xs).
              t \<notin> set (case categories c of None \<Rightarrow> [] | Some cats \<Rightarrow> cats)))"
  by (auto simp add: doesSynergySetApplyToCharacter_def includes_arr_iff anyCatDefMatches_iff
      catDefMatches_iff split: option.splits)

theorem doesSynergySetApply_iff_witness:
  "doesSynergySetApplyToCharacter exampleSithSet exampleSith
   \<and> doesSynergySetApplyToCharacter exampleSithSet (newCharacter ''B'')
   \<and> \<not> doesSynergySetApplyToCharacter exampleSithSet
         (exampleSith\<lparr>categories := Some [''Sith'', ''Jedi'']\<rparr>)
   \<and> \<not> doesSynergySetApplyToCharacter exampleSithSet (newCharacter ''Z'')"
  using doesSynergySetApply_iff [of exampleSithSet exampleSith]
    doesSynergySetApply_iff [of exampleSithSet "newCharacter ''B''"]
    doesSynergySetApply_iff [of exampleSithSet "exampleSith\<lparr>categories := Some [''Sith'', ''Jedi'']\<rparr>"]
    doesSynergySetApply_iff [of exampleSithSet "newCharacter ''Z''"]
  by (simp add: exampleSithSet_def exampleSith_def newCharacter_def synergySetTemplate_def
      categoryDefinitionTemplate_def)

section \<open>Tier resolver: properties\<close>

text \<open>
  C4. The personal omicron component of a character is its \<^verbatim>\<open>omicronBoost\<close>
  when the character qualifies for an omicron bonus and the property is present, 1 when
  it qualifies and the property is absent, and 0 when it does not qualify.
\<close>

theorem personalOmicron_cases:
  "personalOmicron st c =
     (if hasMatchingOmicronAbilities st (id_c c)
      then (case omicronBoost c of Some v \<Rightarrow> v | None \<Rightarrow> 1)
      else 0)"
  by (simp add: personalOmicron_def Let_def split: option.splits)

theorem personalOmicron_cases_witness:
  "hasMatchingOmicronAbilities exampleState ''X''
   \<and> personalOmicron exampleState (exampleX\<lparr>omicronBoost := Some 3\<rparr>) = 3
   \<and> personalOmicron exampleState exampleX = 1
   \<and> \<not> hasMatchingOmicronAbilities exampleState ''Y''
   \<and> personalOmicron exampleState (exampleY\<lparr>omicronBoost := Some 3\<rparr>) = 0"
  using personalOmicron_cases [of exampleState "exampleX\<lparr>omicronBoost := Some 3\<rparr>"]
    personalOmicron_cases [of exampleState exampleX]
    personalOmicron_cases [of exampleState "exampleY\<lparr>omicronBoost := Some 3\<rparr>"]
  by (simp add: exampleState_def exampleX_def exampleY_def initialState_def newCharacter_def
      synergySetTemplate_def hasMatchingOmicronAbilities_def includes_arr_def)








lemma fold_max_zero:
  assumes "\<And>v. v \<in> set xs \<Longrightarrow> v > (0::int)"
  shows "fold max xs 0 = (if xs = [] then 0 else Max (set xs))"
proof (cases xs)
  case Nil
  then show ?thesis by simp
next
  case (Cons x rest)
  have "fold max xs 0 = Max (set (0 # xs))" by (rule Max.set_eq_fold [symmetric])
  also have "\<dots> = max 0 (Max (set xs))" using Cons by simp
  also have "\<dots> = Max (set xs)"
  proof -
    have "x \<le> Max (set xs)" using Cons by simp
    moreover have "x > 0" using assms Cons by simp
    ultimately show ?thesis by simp
  qed
  finally show ?thesis using Cons by simp
qed





lemma calculateFinalTier_fields:
  "appliedOmicronBonus (calculateFinalTier st c) = fst (omicronBlock st c)"
  "omicronSource (calculateFinalTier st c) = snd (omicronBlock st c)"
  by (simp_all add: calculateFinalTier_def Let_def split: prod.splits)




text \<open>
  X2. The final tier lies in 1..19 for every character and every setting of the two
  inclusion switches.
\<close>

theorem finalTier_in_range:
  "1 \<le> finalTier (calculateFinalTier st c) \<and> finalTier (calculateFinalTier st c) \<le> 19"
  by (simp add: calculateFinalTier_def Let_def split: prod.splits)

lemma scanSynergySets_result:
  "scanSynergySets c oid sets (b, src) = (b', src') \<Longrightarrow>
     (b' = b \<and> src' = src)
     \<or> (b' > b \<and> src' = Some oid
         \<and> list_ex (\<lambda>s. synergyEnhancementOmicron s = Some b'
                        \<and> doesSynergyOmicronApplyToCharacter s c) sets)"
proof (induction sets arbitrary: b src)
  case Nil
  then show ?case by simp
next
  case (Cons s rest)
  define v where "v = (case synergyEnhancementOmicron s of None \<Rightarrow> 0 | Some v \<Rightarrow> v)"
  show ?case
  proof (cases "v \<noteq> 0 \<and> doesSynergyOmicronApplyToCharacter s c \<and> v > b")
    case True
    then have "scanSynergySets c oid rest (v, Some oid) = (b', src')"
      using Cons.prems by (simp add: v_def Let_def)
    from Cons.IH [OF this] have
      "(b' = v \<and> src' = Some oid)
       \<or> (b' > v \<and> src' = Some oid
           \<and> list_ex (\<lambda>s. synergyEnhancementOmicron s = Some b'
                          \<and> doesSynergyOmicronApplyToCharacter s c) rest)" .
    moreover have "synergyEnhancementOmicron s = Some v"
      using True by (auto simp add: v_def split: option.splits)
    ultimately show ?thesis using True by auto
  next
    case False
    then have "scanSynergySets c oid rest (b, src) = (b', src')"
      using Cons.prems by (auto simp add: v_def Let_def split: if_splits)
    from Cons.IH [OF this] show ?thesis by auto
  qed
qed

lemma scanCharacters_result:
  "scanCharacters st c chars (b, src) = (b', src') \<Longrightarrow>
     (b' = b \<and> src' = src)
     \<or> (b' > b \<and> (\<exists>x \<in> set chars. src' = Some (id_c x) \<and> grantsOmicron st c x b'))"
proof (induction chars arbitrary: b src)
  case Nil
  then show ?case by simp
next
  case (Cons x rest)
  show ?case
  proof (cases "synergySets x \<noteq> None \<and> length (ownSets x) \<noteq> 0
                \<and> hasMatchingOmicronAbilities st (id_c x)")
    case True
    obtain b1 src1 where inner: "scanSynergySets c (id_c x) (ownSets x) (b, src) = (b1, src1)"
      by (cases "scanSynergySets c (id_c x) (ownSets x) (b, src)")
    from True inner Cons.prems have "scanCharacters st c rest (b1, src1) = (b', src')"
      by (auto simp add: ownSets_def split: option.splits)
    from Cons.IH [OF this] have outer:
      "(b' = b1 \<and> src' = src1)
       \<or> (b' > b1 \<and> (\<exists>x \<in> set rest. src' = Some (id_c x) \<and> grantsOmicron st c x b'))" .
    from scanSynergySets_result [OF inner] have step:
      "(b1 = b \<and> src1 = src)
       \<or> (b1 > b \<and> src1 = Some (id_c x) \<and> grantsOmicron st c x b1)"
      using True by (auto simp add: grantsOmicron_def)
    from outer step show ?thesis by auto
  next
    case False
    then have "scanCharacters st c rest (b, src) = (b', src')"
      using Cons.prems by (auto simp add: ownSets_def split: option.splits if_splits)
    from Cons.IH [OF this] show ?thesis by auto
  qed
qed

lemma bestSynergyOmicron_result:
  "bestSynergyOmicron st c = (e, src) \<Longrightarrow>
     (e = 0 \<and> src = None)
     \<or> (e > 0 \<and> (\<exists>x \<in> set (characterData st). src = Some (id_c x) \<and> grantsOmicron st c x e))"
  using scanCharacters_result [of st c "characterData st" 0 None e src]
  by (simp add: bestSynergyOmicron_def)

lemma fold_max_ge: "(b::int) \<le> fold max xs b"
proof (induction xs arbitrary: b)
  case Nil
  then show ?case by simp
next
  case (Cons x xs)
  have "b \<le> max x b" by simp
  also have "\<dots> \<le> fold max xs (max x b)" by (rule Cons)
  finally show ?case by simp
qed

lemma collectedFrom_Nil: "collectedFrom c [] = []"
  by (simp add: collectedFrom_def)

lemma scanSynergySets_max:
  "0 \<le> b \<Longrightarrow> fst (scanSynergySets c oid sets (b, src)) = fold max (collectedFrom c sets) b"
proof (induction sets arbitrary: b src)
  case Nil
  then show ?case by (simp add: collectedFrom_def)
next
  case (Cons s rest)
  define v where "v = (case synergyEnhancementOmicron s of None \<Rightarrow> 0 | Some v \<Rightarrow> v)"
  show ?case
  proof (cases "v \<noteq> 0 \<and> doesSynergyOmicronApplyToCharacter s c \<and> v > b")
    case True
    then have v: "synergyEnhancementOmicron s = Some v" "v > 0" "max v b = v"
      using Cons.prems by (auto simp add: v_def split: option.splits)
    have step: "scanSynergySets c oid (s # rest) (b, src) = scanSynergySets c oid rest (v, Some oid)"
      using True by (simp add: v_def Let_def)
    have col: "collectedFrom c (s # rest) = v # collectedFrom c rest"
      using True v by (simp add: collectedFrom_def)
    show ?thesis unfolding step col using Cons.IH [of v "Some oid"] v by simp
  next
    case False
    have step: "scanSynergySets c oid (s # rest) (b, src) = scanSynergySets c oid rest (b, src)"
      using False by (auto simp add: v_def Let_def)
    have "collectedFrom c (s # rest) = collectedFrom c rest
          \<or> (collectedFrom c (s # rest) = v # collectedFrom c rest \<and> max v b = b)"
      using False Cons.prems
      by (auto simp add: collectedFrom_def v_def split: option.splits)
    then show ?thesis unfolding step using Cons.IH [OF Cons.prems, of src] by auto
  qed
qed

lemma scanCharacters_max:
  "0 \<le> b \<Longrightarrow> fst (scanCharacters st c chars (b, src))
     = fold max (collectedOmicron (\<lambda>x. True) st c chars) b"
proof (induction chars arbitrary: b src)
  case Nil
  then show ?case by (simp add: collectedOmicron_def)
next
  case (Cons x rest)
  show ?case
  proof (cases "synergySets x \<noteq> None \<and> length (ownSets x) \<noteq> 0
                \<and> hasMatchingOmicronAbilities st (id_c x)")
    case True
    obtain b1 src1 where inner: "scanSynergySets c (id_c x) (ownSets x) (b, src) = (b1, src1)"
      by (cases "scanSynergySets c (id_c x) (ownSets x) (b, src)")
    have b1: "b1 = fold max (collectedFrom c (ownSets x)) b"
      using scanSynergySets_max [OF Cons.prems, of c "id_c x" "ownSets x" src] inner by simp
    then have "0 \<le> b1" using fold_max_ge [of b "collectedFrom c (ownSets x)"] Cons.prems
      by simp
    from Cons.IH [OF this, of src1]
    have "fst (scanCharacters st c rest (b1, src1))
            = fold max (collectedOmicron (\<lambda>x. True) st c rest) b1" .
    moreover have "scanCharacters st c (x # rest) (b, src) = scanCharacters st c rest (b1, src1)"
      using True inner by (auto simp add: ownSets_def split: option.splits)
    moreover have "collectedOmicron (\<lambda>x. True) st c (x # rest)
        = collectedFrom c (ownSets x) @ collectedOmicron (\<lambda>x. True) st c rest"
      using True by (simp add: collectedOmicron_def)
    ultimately show ?thesis using b1 by (simp del: scanCharacters.simps)
  next
    case False
    have step: "scanCharacters st c (x # rest) (b, src) = scanCharacters st c rest (b, src)"
      using False by (auto simp add: ownSets_def split: option.splits)
    have "collectedOmicron (\<lambda>x. True) st c (x # rest) = collectedOmicron (\<lambda>x. True) st c rest"
      using False by (auto simp add: collectedOmicron_def ownSets_def collectedFrom_Nil
          split: option.splits)
    then show ?thesis unfolding step using Cons.IH [OF Cons.prems, of src] by simp
  qed
qed

lemma collectedOmicron_split:
  "collectedOmicron (\<lambda>x. id_c x = t) st c chars = [] \<Longrightarrow>
   collectedOmicron (\<lambda>x. True) st c chars = collectedOmicron (\<lambda>x. id_c x \<noteq> t) st c chars"
  by (induction chars) (auto simp add: collectedOmicron_def)

lemma collectedFrom_pos: "v \<in> set (collectedFrom c sets) \<Longrightarrow> v > 0"
  by (auto simp add: collectedFrom_def split: option.splits if_splits)

lemma collectedOmicron_pos: "v \<in> set (collectedOmicron among st c chars) \<Longrightarrow> v > 0"
  by (auto simp add: collectedOmicron_def dest: collectedFrom_pos split: if_splits)

lemma grants_collected:
  "grantsOmicron st c x v \<Longrightarrow> v > 0 \<Longrightarrow> x \<in> set chars \<Longrightarrow> among x \<Longrightarrow>
   v \<in> set (collectedOmicron among st c chars)"
  by (force simp add: grantsOmicron_def collectedOmicron_def collectedFrom_def list_ex_iff)

lemma bestSynergyOmicron_spec:
  assumes "noSelfGrant st c"
  shows "fst (bestSynergyOmicron st c) = externalOmicron_spec st c"
proof -
  have "fst (bestSynergyOmicron st c)
          = fold max (collectedOmicron (\<lambda>x. True) st c (characterData st)) 0"
    using scanCharacters_max [of 0 st c "characterData st" None]
    by (simp add: bestSynergyOmicron_def)
  also have "\<dots> = fold max
      (collectedOmicron (\<lambda>x. id_c x \<noteq> id_c c) st c (characterData st)) 0"
    using assms collectedOmicron_split [of "id_c c" st c "characterData st"]
    by (simp add: noSelfGrant_def)
  also have "\<dots> = externalOmicron_spec st c"
    using fold_max_zero [of "collectedOmicron (\<lambda>x. id_c x \<noteq> id_c c) st c (characterData st)"]
      collectedOmicron_pos [of _ "\<lambda>x. id_c x \<noteq> id_c c" st c "characterData st"]
    by (simp add: externalOmicron_spec_def)
  finally show ?thesis .
qed

lemma granting_other:
  assumes "noSelfGrant st c" and "grantsOmicron st c x v" and "v > 0"
    and "x \<in> set (characterData st)"
  shows "id_c x \<noteq> id_c c"
proof
  assume "id_c x = id_c c"
  then have "v \<in> set (collectedOmicron (\<lambda>x. id_c x = id_c c) st c (characterData st))"
    using grants_collected [OF assms(2,3,4), of "\<lambda>x. id_c x = id_c c"] by simp
  then show False using assms(1) by (simp add: noSelfGrant_def)
qed

text \<open>
  C1, as amended. For a target to which no synergy set of its own grants an omicron
  bonus: with omicron inclusion enabled, the applied omicron bonus is the maximum of the
  personal component and the externally granted component, and differs from their sum
  when both are positive. The recorded source is \<^verbatim>\<open>'character'\<close> when the
  personal component is positive and at least the external one; otherwise it is the id
  of another character of the dataset that grants the external component when that
  component is positive, and \<^verbatim>\<open>null\<close> when it is not.
\<close>

theorem appliedOmicron_max:
  assumes "includeOmicron st" and "noSelfGrant st c"
  shows "appliedOmicronBonus (calculateFinalTier st c)
           = max (personalOmicron st c) (externalOmicron_spec st c)
     \<and> (personalOmicron st c > 0 \<and> externalOmicron_spec st c > 0 \<longrightarrow>
          appliedOmicronBonus (calculateFinalTier st c)
            \<noteq> personalOmicron st c + externalOmicron_spec st c)
     \<and> (if personalOmicron st c > 0 \<and> personalOmicron st c \<ge> externalOmicron_spec st c
         then omicronSource (calculateFinalTier st c) = Some ''character''
         else if externalOmicron_spec st c > 0
         then \<exists>x \<in> set (characterData st).
                id_c x \<noteq> id_c c
                \<and> omicronSource (calculateFinalTier st c) = Some (id_c x)
                \<and> grantsOmicron st c x (externalOmicron_spec st c)
         else omicronSource (calculateFinalTier st c) = None)"
proof -
  obtain e src where b: "bestSynergyOmicron st c = (e, src)"
    by (cases "bestSynergyOmicron st c")
  have e: "externalOmicron_spec st c = e"
    using bestSynergyOmicron_spec [OF assms(2)] b by simp
  have r: "(e = 0 \<and> src = None)
     \<or> (e > 0 \<and> (\<exists>x \<in> set (characterData st).
           id_c x \<noteq> id_c c \<and> src = Some (id_c x) \<and> grantsOmicron st c x e))"
    using bestSynergyOmicron_result [OF b] granting_other [OF assms(2)] by blast
  have ob: "omicronBlock st c =
      (if personalOmicron st c > 0 \<and> personalOmicron st c \<ge> e
       then (personalOmicron st c, Some ''character'')
       else if e > 0 then (e, src) else (0, None))"
    using assms(1) b by (simp add: omicronBlock_def Let_def)
  show ?thesis using r by (auto simp add: calculateFinalTier_fields ob e)
qed

theorem appliedOmicron_max_witness:
  "includeOmicron exampleStateBoth \<and> noSelfGrant exampleStateBoth exampleYOwn
   \<and> personalOmicron exampleStateBoth exampleYOwn = 2
   \<and> externalOmicron_spec exampleStateBoth exampleYOwn = 4
   \<and> appliedOmicronBonus (calculateFinalTier exampleStateBoth exampleYOwn) = 4
   \<and> omicronSource (calculateFinalTier exampleStateBoth exampleYOwn) = Some ''X''
   \<and> noSelfGrant exampleStateBoth exampleX
   \<and> omicronSource (calculateFinalTier exampleStateBoth exampleX) = Some ''character''"
proof -
  have on: "includeOmicron exampleStateBoth"
    by (simp add: exampleStateBoth_def exampleState_def initialState_def)
  have p: "personalOmicron exampleStateBoth exampleYOwn = 2"
    "personalOmicron exampleStateBoth exampleX = 1"
    by (simp_all add: personalOmicron_def hasMatchingOmicronAbilities_def includes_arr_def
        exampleStateBoth_def exampleState_def initialState_def exampleYOwn_def exampleY_def
        exampleX_def newCharacter_def)
  have ns: "noSelfGrant exampleStateBoth exampleYOwn" "noSelfGrant exampleStateBoth exampleX"
    by (simp_all add: noSelfGrant_def collectedOmicron_def collectedFrom_def ownSets_def
        doesSynergyOmicronApplyToCharacter_def includes_arr_def exampleStateBoth_def
        exampleState_def initialState_def exampleYOwn_def exampleY_def exampleX_def
        exampleA_def newCharacter_def synergySetTemplate_def)
  have e: "externalOmicron_spec exampleStateBoth exampleYOwn = 4"
    "externalOmicron_spec exampleStateBoth exampleX = 0"
    by (simp_all add: externalOmicron_spec_def collectedOmicron_def collectedFrom_def
        ownSets_def hasMatchingOmicronAbilities_def includes_arr_def
        doesSynergyOmicronApplyToCharacter_def exampleStateBoth_def exampleState_def
        initialState_def exampleYOwn_def exampleY_def exampleX_def exampleA_def
        newCharacter_def synergySetTemplate_def)
  have ids: "x \<in> set (characterData exampleStateBoth) \<Longrightarrow> id_c x \<noteq> id_c exampleYOwn
      \<Longrightarrow> grantsOmicron exampleStateBoth exampleYOwn x 4 \<Longrightarrow> id_c x = ''X''" for x
    by (auto simp add: grantsOmicron_def ownSets_def exampleStateBoth_def exampleState_def
        initialState_def exampleYOwn_def exampleY_def exampleX_def exampleA_def
        newCharacter_def synergySetTemplate_def doesSynergyOmicronApplyToCharacter_def
        includes_arr_def)
  show ?thesis
    using appliedOmicron_max [OF on ns(1)] appliedOmicron_max [OF on ns(2)] ids
    by (auto simp add: on p e ns)
qed

theorem appliedOmicron_source_counterexample:
  "includeOmicron exampleState \<and> noSelfGrant exampleState exampleA
   \<and> personalOmicron exampleState exampleA = 0
   \<and> externalOmicron_spec exampleState exampleA = 0
   \<and> omicronSource (calculateFinalTier exampleState exampleA) = None"
  by (simp add: calculateFinalTier_fields omicronBlock_def personalOmicron_def
      bestSynergyOmicron_def hasMatchingOmicronAbilities_def includes_arr_def
      noSelfGrant_def externalOmicron_spec_def collectedOmicron_def collectedFrom_def
      ownSets_def doesSynergyOmicronApplyToCharacter_def exampleState_def initialState_def
      exampleA_def exampleX_def exampleY_def newCharacter_def synergySetTemplate_def)

text \<open>
  C3. The scan does not skip the target. On the dataset whose only character \<open>T\<close>
  qualifies and lists itself in a set with an omicron enhancement of 4, no other
  character exists, so the externally granted component is 0; the scan of
  \<^verbatim>\<open>calculateFinalTier\<close> finds 4 with \<open>T\<close> as its source, and 4 is applied in
  place of the personal component 1.
\<close>

theorem selfGrantedOmicron:
  "characterData exampleSelfState = [exampleSelf]
   \<and> externalOmicron_spec exampleSelfState exampleSelf = 0
   \<and> personalOmicron exampleSelfState exampleSelf = 1
   \<and> bestSynergyOmicron exampleSelfState exampleSelf = (4, Some ''T'')
   \<and> calculateFinalTier exampleSelfState exampleSelf
       = \<lparr>finalTier = 6, appliedOmicronBonus = 4, omicronSource = Some ''T''\<rparr>"
  by (simp add: calculateFinalTier_def omicronBlock_def personalOmicron_def
      bestSynergyOmicron_def hasMatchingOmicronAbilities_def includes_arr_def
      externalOmicron_spec_def collectedOmicron_def
      doesSynergyOmicronApplyToCharacter_def exampleSelfState_def initialState_def
      exampleSelf_def newCharacter_def synergySetTemplate_def)

text \<open>
  X1. What the scan of \<^verbatim>\<open>calculateFinalTier\<close> computes on every dataset: the
  maximum of the positive omicron enhancements of the sets that list the target, over
  all qualifying characters of the dataset, the target among them; 0 when there is none.
\<close>

theorem bestSynergyOmicron_all:
  "fst (bestSynergyOmicron st c) =
     (if collectedOmicron (\<lambda>x. True) st c (characterData st) = [] then 0
      else Max (set (collectedOmicron (\<lambda>x. True) st c (characterData st))))"
proof -
  have "fst (bestSynergyOmicron st c)
          = fold max (collectedOmicron (\<lambda>x. True) st c (characterData st)) 0"
    using scanCharacters_max [of 0 st c "characterData st" None]
    by (simp add: bestSynergyOmicron_def)
  then show ?thesis
    using fold_max_zero [of "collectedOmicron (\<lambda>x. True) st c (characterData st)"]
      collectedOmicron_pos [of _ "\<lambda>x. True" st c "characterData st"]
    by simp
qed

section \<open>Slot accountant and commit: properties\<close>

lemma fold_slots:
  "fold (\<lambda>catDef sum. sum + (case numberMatchesRequired catDef of None \<Rightarrow> 0
                              | Some n \<Rightarrow> if n = 0 then 0 else n)) defs a
   = a + sum_list (map (\<lambda>catDef. case numberMatchesRequired catDef of None \<Rightarrow> 0 | Some n \<Rightarrow> n) defs)"
  by (induction defs arbitrary: a) (auto split: option.splits)

lemma slotUsage_sum:
  "getSynergySlotUsage (Some s) =
     int (length (case characters s of None \<Rightarrow> [] | Some cs \<Rightarrow> cs))
     + sum_list (map (\<lambda>catDef. case numberMatchesRequired catDef of None \<Rightarrow> 0 | Some n \<Rightarrow> n)
         (case categoryDefinitions s of None \<Rightarrow> [] | Some defs \<Rightarrow> defs))"
  by (simp add: getSynergySlotUsage_def Let_def fold_slots split: option.splits)



lemma updateCharacter_commits:
  assumes "selectedCharacter st = Some i" and "currentDraft st = Some d"
    and "validateDraft d = None"
  shows "updateCharacter st =
     initializeDraft
       (st\<lparr>characterData := (characterData st)[i := applyDraft (characterData st ! i) d],
           hasUnsavedChanges := True\<rparr>)
       (applyDraft (characterData st ! i) d)"
  using assms by (simp add: updateCharacter_def Let_def)

lemma updateCharacter_alerts:
  assumes "selectedCharacter st = Some i" and "currentDraft st = Some d"
    and "validateDraft d = Some msg"
  shows "updateCharacter st = st\<lparr>alerts := alerts st @ [msg]\<rparr>"
  using assms by (simp add: updateCharacter_def)

text \<open>
  C7. The slot usage of a synergy set is the number of its characters plus the sum of
  \<^verbatim>\<open>numberMatchesRequired\<close> over its category definitions, absent arrays counting
  as empty. A set with two characters and one category definition has usage 4 when the
  definition requires 2 matches, and a draft that is valid otherwise and holds that set
  is committed by \<^verbatim>\<open>updateCharacter\<close> without an alert; it has usage 5 when the
  definition requires 3 matches, and the same draft is then rejected with the slot
  message and nothing else changes.
\<close>

theorem getSynergySlotUsage_sum:
  "getSynergySlotUsage (Some s) =
     int (length (case characters s of None \<Rightarrow> [] | Some cs \<Rightarrow> cs))
     + sum_list (map (\<lambda>catDef. case numberMatchesRequired catDef of None \<Rightarrow> 0 | Some n \<Rightarrow> n)
         (case categoryDefinitions s of None \<Rightarrow> [] | Some defs \<Rightarrow> defs))
   \<and> (characters s = Some [a, b] \<and> categoryDefinitions s = Some [cd]
        \<and> numberMatchesRequired cd = Some 2
        \<longrightarrow> getSynergySlotUsage (Some s) = 4
            \<and> (selectedCharacter st = Some i \<and> currentDraft st = Some d
                 \<and> synergySets d = Some [s] \<and> \<not> draftCheckFails (d\<lparr>synergySets := None\<rparr>)
                 \<and> (case synergyEnhancement s of None \<Rightarrow> True | Some v \<Rightarrow> 0 \<le> v \<and> v \<le> 10)
                 \<and> (case synergyEnhancementOmicron s of
                       None \<Rightarrow> True | Some v \<Rightarrow> 0 \<le> v \<and> v \<le> 10)
                 \<longrightarrow> alerts (updateCharacter st) = alerts st
                     \<and> hasUnsavedChanges (updateCharacter st)
                     \<and> characterData (updateCharacter st)
                         = (characterData st)[i := applyDraft (characterData st ! i) d]))
   \<and> (characters s = Some [a, b] \<and> categoryDefinitions s = Some [cd]
        \<and> numberMatchesRequired cd = Some 3
        \<longrightarrow> getSynergySlotUsage (Some s) = 5
            \<and> (selectedCharacter st = Some i \<and> currentDraft st = Some d
                 \<and> synergySets d = Some [s] \<and> \<not> draftCheckFails (d\<lparr>synergySets := None\<rparr>)
                 \<and> (case synergyEnhancement s of None \<Rightarrow> True | Some v \<Rightarrow> 0 \<le> v \<and> v \<le> 10)
                 \<and> (case synergyEnhancementOmicron s of
                       None \<Rightarrow> True | Some v \<Rightarrow> 0 \<le> v \<and> v \<le> 10)
                 \<longrightarrow> updateCharacter st
                       = st\<lparr>alerts := alerts st @ [SynergySlotUsage 1 5 2 3]\<rparr>))"
proof (intro conjI impI)
  show "getSynergySlotUsage (Some s) =
     int (length (case characters s of None \<Rightarrow> [] | Some cs \<Rightarrow> cs))
     + sum_list (map (\<lambda>catDef. case numberMatchesRequired catDef of None \<Rightarrow> 0 | Some n \<Rightarrow> n)
         (case categoryDefinitions s of None \<Rightarrow> [] | Some defs \<Rightarrow> defs))"
    by (rule slotUsage_sum)
next
  assume "characters s = Some [a, b] \<and> categoryDefinitions s = Some [cd]
        \<and> numberMatchesRequired cd = Some 2"
  then show "getSynergySlotUsage (Some s) = 4" by (simp add: slotUsage_sum)
next
  assume "characters s = Some [a, b] \<and> categoryDefinitions s = Some [cd]
        \<and> numberMatchesRequired cd = Some 3"
  then show "getSynergySlotUsage (Some s) = 5" by (simp add: slotUsage_sum)
next
  assume s: "characters s = Some [a, b] \<and> categoryDefinitions s = Some [cd]
        \<and> numberMatchesRequired cd = Some 2"
    and d: "selectedCharacter st = Some i \<and> currentDraft st = Some d
                 \<and> synergySets d = Some [s] \<and> \<not> draftCheckFails (d\<lparr>synergySets := None\<rparr>)
                 \<and> (case synergyEnhancement s of None \<Rightarrow> True | Some v \<Rightarrow> 0 \<le> v \<and> v \<le> 10)
                 \<and> (case synergyEnhancementOmicron s of
                       None \<Rightarrow> True | Some v \<Rightarrow> 0 \<le> v \<and> v \<le> 10)"
  have "validateDraft d = None"
    using s d
    by (auto simp add: validateDraft_def draftCheckFails_def slotUsage_sum
        split: option.splits)
  from updateCharacter_commits [of st i d, OF _ _ this] d
  have u: "updateCharacter st =
     initializeDraft
       (st\<lparr>characterData := (characterData st)[i := applyDraft (characterData st ! i) d],
           hasUnsavedChanges := True\<rparr>)
       (applyDraft (characterData st ! i) d)" by simp
  show "alerts (updateCharacter st) = alerts st"
    "hasUnsavedChanges (updateCharacter st)"
    "characterData (updateCharacter st)
       = (characterData st)[i := applyDraft (characterData st ! i) d]"
    by (simp_all add: u initializeDraft_def)
next
  assume s: "characters s = Some [a, b] \<and> categoryDefinitions s = Some [cd]
        \<and> numberMatchesRequired cd = Some 3"
    and d: "selectedCharacter st = Some i \<and> currentDraft st = Some d
                 \<and> synergySets d = Some [s] \<and> \<not> draftCheckFails (d\<lparr>synergySets := None\<rparr>)
                 \<and> (case synergyEnhancement s of None \<Rightarrow> True | Some v \<Rightarrow> 0 \<le> v \<and> v \<le> 10)
                 \<and> (case synergyEnhancementOmicron s of
                       None \<Rightarrow> True | Some v \<Rightarrow> 0 \<le> v \<and> v \<le> 10)"
  have "validateDraft d = Some (SynergySlotUsage 1 5 2 3)"
    using s d
    by (auto simp add: validateDraft_def draftCheckFails_def slotUsage_sum Let_def
        split: option.splits)
  from updateCharacter_alerts [of st i d, OF _ _ this] d
  show "updateCharacter st = st\<lparr>alerts := alerts st @ [SynergySlotUsage 1 5 2 3]\<rparr>"
    by simp
qed

theorem getSynergySlotUsage_sum_witness:
  "getSynergySlotUsage (Some exampleFourSlots) = 4
   \<and> alerts (updateCharacter (exampleEditing exampleFourSlots)) = []
   \<and> hasUnsavedChanges (updateCharacter (exampleEditing exampleFourSlots))
   \<and> map synergySets (characterData (updateCharacter (exampleEditing exampleFourSlots)))
       = [Some [exampleFourSlots], synergySets exampleX, None]
   \<and> getSynergySlotUsage (Some exampleFiveSlots) = 5
   \<and> alerts (updateCharacter (exampleEditing exampleFiveSlots)) = [SynergySlotUsage 1 5 2 3]
   \<and> characterData (updateCharacter (exampleEditing exampleFiveSlots))
       = [exampleA, exampleX, exampleY]"
proof -
  define cd2 where "cd2 = categoryDefinitionTemplate\<lparr>include_cd := Some [''Sith''],
          numberMatchesRequired := Some 2\<rparr>"
  define cd3 where "cd3 = categoryDefinitionTemplate\<lparr>include_cd := Some [''Sith''],
          numberMatchesRequired := Some 3\<rparr>"
  define d4 where "d4 = (draftSnapshot exampleA)\<lparr>synergySets := Some [exampleFourSlots]\<rparr>"
  define d5 where "d5 = (draftSnapshot exampleA)\<lparr>synergySets := Some [exampleFiveSlots]\<rparr>"
  have ok: "\<not> draftCheckFails (d4\<lparr>synergySets := None\<rparr>)"
    "\<not> draftCheckFails (d5\<lparr>synergySets := None\<rparr>)"
    by (simp_all add: d4_def d5_def draftCheckFails_def draftSnapshot_def exampleA_def
        newCharacter_def)
  have st: "selectedCharacter (exampleEditing s) = Some 0"
    "currentDraft (exampleEditing s) = Some ((draftSnapshot exampleA)\<lparr>synergySets := Some [s]\<rparr>)"
    "alerts (exampleEditing s) = []"
    "characterData (exampleEditing s) = [exampleA, exampleX, exampleY]" for s
    by (simp_all add: exampleEditing_def exampleState_def initialState_def)
  have sets: "characters exampleFourSlots = Some [''B'', ''C'']"
    "categoryDefinitions exampleFourSlots = Some [cd2]"
    "synergyEnhancement exampleFourSlots = Some 3"
    "synergyEnhancementOmicron exampleFourSlots = None"
    "characters exampleFiveSlots = Some [''B'', ''C'']"
    "categoryDefinitions exampleFiveSlots = Some [cd3]"
    "synergyEnhancement exampleFiveSlots = Some 3"
    "synergyEnhancementOmicron exampleFiveSlots = None"
    "numberMatchesRequired cd2 = Some 2" "numberMatchesRequired cd3 = Some 3"
    by (simp_all add: exampleFourSlots_def exampleFiveSlots_def cd2_def cd3_def
        synergySetTemplate_def categoryDefinitionTemplate_def)
  have applied: "synergySets (applyDraft exampleA d4) = Some [exampleFourSlots]"
    by (simp add: applyDraft_def d4_def filteredOrDeleted_def filterBlank_def trimIsEmpty_def
        isWhiteSpace_def includes_arr_def exampleFourSlots_def synergySetTemplate_def
        categoryDefinitionTemplate_def)
  have four: "alerts (updateCharacter (exampleEditing exampleFourSlots)) = []
      \<and> hasUnsavedChanges (updateCharacter (exampleEditing exampleFourSlots))
      \<and> characterData (updateCharacter (exampleEditing exampleFourSlots))
           = [applyDraft exampleA d4, exampleX, exampleY]"
    using getSynergySlotUsage_sum [where s = exampleFourSlots and a = "''B''" and b = "''C''"
        and cd = cd2 and st = "exampleEditing exampleFourSlots" and i = 0 and d = d4]
      ok sets
    by (simp add: st d4_def)
  have five: "updateCharacter (exampleEditing exampleFiveSlots)
        = (exampleEditing exampleFiveSlots)\<lparr>alerts := [SynergySlotUsage 1 5 2 3]\<rparr>"
    using getSynergySlotUsage_sum [where s = exampleFiveSlots and a = "''B''" and b = "''C''"
        and cd = cd3 and st = "exampleEditing exampleFiveSlots" and i = 0 and d = d5]
      ok sets
    by (simp add: st d5_def)
  have usage: "getSynergySlotUsage (Some exampleFourSlots) = 4"
    "getSynergySlotUsage (Some exampleFiveSlots) = 5"
    using getSynergySlotUsage_sum [where s = exampleFourSlots and a = "''B''" and b = "''C''"
        and cd = cd2]
      getSynergySlotUsage_sum [where s = exampleFiveSlots and a = "''B''" and b = "''C''"
        and cd = cd3] sets
    by simp_all
  have none: "synergySets exampleY = None" by (simp add: exampleY_def newCharacter_def)
  show ?thesis using four by (simp add: five usage st applied none)
qed



section \<open>Persistence: properties\<close>












section \<open>Draft session: properties\<close>

lemma elementsEqual_iff: "length xs = length ys \<Longrightarrow> elementsEqual xs ys \<longleftrightarrow> xs = ys"
  by (induction xs ys rule: elementsEqual.induct) auto

lemma arraysDiffer_iff: "arraysDiffer a b \<longleftrightarrow> a \<noteq> b"
  by (auto simp add: arraysDiffer_def elementsEqual_iff split: option.splits)

lemma catDefsDiffer_iff: "catDefsDiffer x y \<longleftrightarrow> x \<noteq> y"
  by (cases x; cases y) (auto simp add: catDefsDiffer_def arraysDiffer_iff)

lemma catDefsLoop_iff: "length xs = length ys \<Longrightarrow> catDefsLoop xs ys \<longleftrightarrow> xs = ys"
  by (induction xs ys rule: catDefsLoop.induct) (auto simp add: catDefsDiffer_iff)

lemma catDefArraysDiffer_iff: "catDefArraysDiffer a b \<longleftrightarrow> a \<noteq> b"
  by (auto simp add: catDefArraysDiffer_def catDefsLoop_iff split: option.splits)

lemma synergySetsDiffer_iff: "synergySetsDiffer x y \<longleftrightarrow> x \<noteq> y"
  by (cases x; cases y)
    (auto simp add: synergySetsDiffer_def arraysDiffer_iff catDefArraysDiffer_iff)

lemma synergySetsLoop_iff: "length xs = length ys \<Longrightarrow> synergySetsLoop xs ys \<longleftrightarrow> xs = ys"
  by (induction xs ys rule: synergySetsLoop.induct) (auto simp add: synergySetsDiffer_iff)

lemma synergySetArraysDiffer_iff: "synergySetArraysDiffer a b \<longleftrightarrow> a \<noteq> b"
  by (auto simp add: synergySetArraysDiffer_def synergySetsLoop_iff split: option.splits)

lemma deepEqualDrafts_agree:
  "deepEqualDrafts (Some d1) (Some d2) \<longleftrightarrow> comparedFieldsAgree d1 d2"
  by (simp add: deepEqualDrafts_def comparedFieldsAgree_def arraysDiffer_iff
      synergySetArraysDiffer_iff)

lemma comparedFieldsAgree_refl: "comparedFieldsAgree d d"
  by (simp add: comparedFieldsAgree_def)

text \<open>
  C10, as amended. \<^verbatim>\<open>deepEqualDrafts\<close> holds of two drafts exactly when they
  agree on the base tier, the omicron boost, the two \<^verbatim>\<open>requiresAll\<close> flags, every
  optional array (required zetas and omicrons, categories, synergy sets with their nested
  arrays; absent is different from empty), and on the truth of the
  \<^verbatim>\<open>gear\<close> and \<^verbatim>\<open>rarity\<close> flags of \<^verbatim>\<open>ignoreRequirements\<close> and
  \<^verbatim>\<open>ignoreSynergyRequirements\<close>, where an absent object, an empty object and a
  flag that is false are alike. \<^verbatim>\<open>refreshDraftDirtyState\<close> marks the session
  dirty exactly when draft and baseline do not agree in this sense, and a draft that
  \<^verbatim>\<open>initializeDraft\<close> has just opened is clean and stays clean when refreshed.
\<close>

theorem deepEqualDrafts_iff:
  "(deepEqualDrafts (Some d1) (Some d2) \<longleftrightarrow> comparedFieldsAgree d1 d2)
   \<and> (currentDraft st = Some d \<and> currentDraftBaseline st = Some b
        \<longrightarrow> draftIsDirty (refreshDraftDirtyState st) = (\<not> comparedFieldsAgree d b))
   \<and> \<not> draftIsDirty (initializeDraft st c)
   \<and> currentDraft (initializeDraft st c) = Some (draftSnapshot c)
   \<and> currentDraftBaseline (initializeDraft st c) = Some (draftSnapshot c)
   \<and> \<not> draftIsDirty (refreshDraftDirtyState (initializeDraft st c))"
  by (simp add: deepEqualDrafts_agree refreshDraftDirtyState_def initializeDraft_def
      comparedFieldsAgree_refl)

theorem deepEqualDrafts_iff_witness:
  "\<not> deepEqualDrafts (Some exampleDraft) (Some (exampleDraft\<lparr>requiredZetas := Some []\<rparr>))
   \<and> draftIsDirty (refreshDraftDirtyState
        (exampleState\<lparr>currentDraft := Some (exampleDraft\<lparr>baseTier := 7\<rparr>),
                       currentDraftBaseline := Some exampleDraft\<rparr>))
   \<and> deepEqualDrafts (Some exampleDraft)
        (Some (exampleDraft\<lparr>ignoreSynergyRequirements := Some \<lparr>gear = Some False, rarity = None\<rparr>\<rparr>))
   \<and> currentDraft (initializeDraft exampleState exampleA) = Some exampleDraft
   \<and> \<not> draftIsDirty (initializeDraft exampleState exampleA)"
proof -
  have rz: "requiredZetas exampleDraft = None" and bt: "baseTier exampleDraft = 8"
    and isr: "ignoreSynergyRequirements exampleDraft = None"
    by (simp_all add: exampleDraft_def draftSnapshot_def exampleA_def newCharacter_def)
  define st where "st = exampleState\<lparr>currentDraft := Some (exampleDraft\<lparr>baseTier := 7\<rparr>),
                       currentDraftBaseline := Some exampleDraft\<rparr>"
  have st: "currentDraft st = Some (exampleDraft\<lparr>baseTier := 7\<rparr>)
      \<and> currentDraftBaseline st = Some exampleDraft"
    by (simp add: st_def)
  have w1: "\<not> deepEqualDrafts (Some exampleDraft)
      (Some (exampleDraft\<lparr>requiredZetas := Some []\<rparr>))"
    using deepEqualDrafts_iff [where ?d1.0 = exampleDraft
        and ?d2.0 = "exampleDraft\<lparr>requiredZetas := Some []\<rparr>"]
    by (simp add: comparedFieldsAgree_def rz)
  have w2: "draftIsDirty (refreshDraftDirtyState st)"
    using deepEqualDrafts_iff [where st = st and d = "exampleDraft\<lparr>baseTier := 7\<rparr>"
        and b = exampleDraft] st
    by (simp add: comparedFieldsAgree_def bt)
  have w3: "deepEqualDrafts (Some exampleDraft)
      (Some (exampleDraft\<lparr>ignoreSynergyRequirements :=
               Some \<lparr>gear = Some False, rarity = None\<rparr>\<rparr>))"
    using deepEqualDrafts_iff [where ?d1.0 = exampleDraft
        and ?d2.0 = "exampleDraft\<lparr>ignoreSynergyRequirements :=
                       Some \<lparr>gear = Some False, rarity = None\<rparr>\<rparr>"]
    by (simp add: comparedFieldsAgree_def isr flagOrFalse_def)
  have w4: "currentDraft (initializeDraft exampleState exampleA) = Some exampleDraft"
    "\<not> draftIsDirty (initializeDraft exampleState exampleA)"
    using deepEqualDrafts_iff [where st = exampleState and c = exampleA]
    by (simp_all add: exampleDraft_def)
  show ?thesis using w1 w2 w3 w4 by (simp add: st_def)
qed

theorem deepEqualDrafts_counterexample:
  "ignoreRequirements exampleDraft = None
   \<and> ignoreRequirements exampleDraftEmptyFlags = Some \<lparr>gear = None, rarity = None\<rparr>
   \<and> exampleDraft \<noteq> exampleDraftEmptyFlags
   \<and> deepEqualDrafts (Some exampleDraft) (Some exampleDraftEmptyFlags)
   \<and> \<not> draftIsDirty (refreshDraftDirtyState
          (exampleState\<lparr>currentDraft := Some exampleDraft,
                         currentDraftBaseline := Some exampleDraftEmptyFlags\<rparr>))"
proof -
  have a: "ignoreRequirements exampleDraft = None"
    by (simp add: exampleDraft_def draftSnapshot_def exampleA_def newCharacter_def)
  have b: "ignoreRequirements exampleDraftEmptyFlags = Some \<lparr>gear = None, rarity = None\<rparr>"
    by (simp add: exampleDraftEmptyFlags_def)
  have ne: "exampleDraft \<noteq> exampleDraftEmptyFlags"
  proof
    assume "exampleDraft = exampleDraftEmptyFlags"
    then have "ignoreRequirements exampleDraft = ignoreRequirements exampleDraftEmptyFlags"
      by simp
    then show False using a b by simp
  qed
  have eq: "deepEqualDrafts (Some exampleDraft) (Some exampleDraftEmptyFlags)"
    by (simp add: deepEqualDrafts_def exampleDraftEmptyFlags_def flagOrFalse_def a
        arraysDiffer_def synergySetArraysDiffer_def elementsEqual_iff synergySetsLoop_iff
        split: option.splits)
  show ?thesis using a b ne eq by (simp add: refreshDraftDirtyState_def)
qed

end
